theory Spec2Isabelle
  imports Complex_Main
begin

section \<open>Voice streaming service (server/services/voiceStreaming.ts)\<close>

text \<open>
  A shallow embedding of the class \<open>VoiceStreamingService\<close>. Every method and every
  socket event handler of the class is a function on an explicit service state. Calls on
  the collaborators of the class (the client socket, the ElevenLabs socket, the storage
  module, the console) are recorded, in program order, in the \<open>effects\<close> trace of the
  state. What the collaborators answer (the clock, the environment variables, whether
  the WebSocket constructor, the token generator or the storage write throw) is an
  explicit input of the function that asks.
\<close>

subsection \<open>JavaScript values\<close>

text \<open>
  The values the handlers manipulate: the results of \<open>JSON.parse\<close>, the value
  \<open>undefined\<close> of an absent property, and the members every plain object inherits
  from \<open>Object.prototype\<close> (\<open>JNative name\<close>, a function or the prototype object
  itself). An object is the list of its own properties, each key once. A number is
  the rational its shortest decimal literal denotes.
\<close>

datatype js =
    JUndefined
  | JNull
  | JBool bool
  | JNum rat
  | JStr string
  | JArr "js list"
  | JObj "(string \<times> js) list"
  | JNative string

text \<open>JavaScript truthiness (\<open>if (v)\<close>, \<open>v || w\<close>).\<close>

fun truthy :: "js \<Rightarrow> bool" where
  "truthy JUndefined = False"
| "truthy JNull = False"
| "truthy (JBool b) = b"
| "truthy (JNum r) = (r \<noteq> 0)"
| "truthy (JStr s) = (s \<noteq> [])"
| "truthy (JArr xs) = True"
| "truthy (JObj kvs) = True"
| "truthy (JNative n) = True"

text \<open>The property names of \<open>Object.prototype\<close> (Node.js).\<close>

definition object_prototype_names :: "string list" where
  "object_prototype_names =
     [''constructor'', ''__defineGetter__'', ''__defineSetter__'', ''hasOwnProperty'',
      ''__lookupGetter__'', ''__lookupSetter__'', ''isPrototypeOf'',
      ''propertyIsEnumerable'', ''toString'', ''valueOf'', ''__proto__'',
      ''toLocaleString'']"

text \<open>
  Reading \<open>obj[k]\<close> on a plain object with the own properties \<open>kvs\<close>: the own
  property, else the member inherited from \<open>Object.prototype\<close>, else \<open>undefined\<close>.
\<close>

definition get_property :: "(string \<times> js) list \<Rightarrow> string \<Rightarrow> js" where
  "get_property kvs k =
     (case map_of kvs k of
        Some v \<Rightarrow> v
      | None \<Rightarrow> if k \<in> set object_prototype_names then JNative k else JUndefined)"

datatype error = SyntaxError | TypeError | ConnectError | TokenError | StorageError

text \<open>
  Reading \<open>v.k\<close> on any value: a TypeError on \<open>null\<close> and \<open>undefined\<close>. On strings,
  numbers, booleans, arrays and functions only the members of \<open>Object.prototype\<close>
  are modelled; the handlers read the properties \<open>type\<close>, \<open>text\<close>, \<open>audio\<close>,
  \<open>alignment\<close> and \<open>isFinal\<close>, which no built-in prototype has.
\<close>

fun member_of :: "js \<Rightarrow> string \<Rightarrow> error + js" where
  "member_of JUndefined k = Inl TypeError"
| "member_of JNull k = Inl TypeError"
| "member_of (JObj kvs) k = Inr (get_property kvs k)"
| "member_of v k = Inr (if k \<in> set object_prototype_names then JNative k else JUndefined)"

text \<open>
  The argument of \<open>JSON.stringify\<close> for an object literal with the given properties:
  properties whose value is \<open>undefined\<close> are left out of the serialisation. (The
  other property values the handlers pass are literals and parts of parsed frames.)
\<close>

definition json_object :: "(string \<times> js) list \<Rightarrow> js" where
  "json_object fields = JObj (filter (\<lambda>(k, v). v \<noteq> JUndefined) fields)"

text \<open>The outcome of \<open>JSON.parse(data.toString())\<close> on a received frame.\<close>

datatype parsed = ParseFailure | Parsed js

subsection \<open>Decimal rendering of the clock\<close>

text \<open>
  \<open>Date.now()\<close> is an integer number of milliseconds, far below the \<open>10^21\<close> from
  which JavaScript switches to exponent notation; a template literal renders it in
  decimal, with a leading minus sign when it is negative.
\<close>

definition digit_char :: "nat \<Rightarrow> char" where
  "digit_char d = ''0123456789'' ! d"

fun show_nat :: "nat \<Rightarrow> string" where
  "show_nat n = (if n < 10 then [digit_char n] else show_nat (n div 10) @ [digit_char (n mod 10)])"

declare show_nat.simps [simp del]

definition show_int :: "int \<Rightarrow> string" where
  "show_int i = (if i < 0 then CHR ''-'' # show_nat (nat (- i)) else show_nat (nat i))"

subsection \<open>State\<close>

text \<open>
  \<open>VoiceStreamingSession\<close>: \<open>elevenLabsWs\<close> is a reference to a socket
  (\<open>None\<close> while the field is \<open>undefined\<close>). The field \<open>geminiSession\<close> is never
  assigned or read and is left out.
\<close>

record VoiceStreamingSession =
  sessionId :: string
  conversationId :: string
  elevenLabsWs :: "nat option"
  isActive :: bool
  startTime :: int

datatype readyState = CONNECTING | OPEN | CLOSING | CLOSED

datatype level = LogInfo | LogWarn | LogError

text \<open>
  Calls on collaborators. \<open>Console\<close> keeps the level and the message text (without
  the error object some calls append); \<open>ClientSend c v\<close> is
  \<open>clientWs.send(JSON.stringify(v))\<close> on the client socket \<open>c\<close>; \<open>ClientOn c ev\<close>
  is \<open>clientWs.on(ev, handler)\<close>; \<open>UpstreamNew w url\<close> is \<open>new WebSocket(url)\<close>
  returning the socket \<open>w\<close>; \<open>UpstreamOn\<close>, \<open>UpstreamSend\<close> and \<open>UpstreamClose\<close>
  are \<open>on\<close>, \<open>send\<close> and \<open>close\<close> on an ElevenLabs socket;
  \<open>StorageCreateAudioCache v\<close> is \<open>storage.createAudioCache(v)\<close>.
\<close>

datatype effect =
    Console level string
  | ClientSend nat js
  | ClientOn nat string
  | UpstreamNew nat string
  | UpstreamOn nat string
  | UpstreamSend nat js
  | UpstreamClose nat
  | StorageCreateAudioCache js

text \<open>
  The service: the \<open>activeSessions\<close> map holds references to session objects, the
  session objects and the ElevenLabs sockets live in stores (the event handlers keep
  their own references to both), \<open>nextRef\<close> is the next unused reference.
\<close>

record service =
  activeSessions :: "string \<rightharpoonup> nat"
  sessionObjs :: "nat \<rightharpoonup> VoiceStreamingSession"
  upstream :: "nat \<rightharpoonup> readyState"
  nextRef :: nat
  effects :: "effect list"

definition emit :: "effect \<Rightarrow> service \<Rightarrow> service" where
  "emit e s = s\<lparr>effects := effects s @ [e]\<rparr>"

definition initial :: service where
  "initial = \<lparr>activeSessions = Map.empty, sessionObjs = Map.empty, upstream = Map.empty,
              nextRef = 0, effects = []\<rparr>"

text \<open>A block that returns normally, or throws after the effects it had so far.\<close>

datatype outcome = Returned service | Threw error service

subsection \<open>getPersonalitySystemPrompt\<close>

definition prompts :: "(string \<times> js) list" where
  "prompts =
     [(''AUtistic AI'', JStr ''You are AUtistic AI, specialized in meme coins and creative content. Be casual, fun, and knowledgeable about crypto culture.''),
      (''Level 1 ASD'', JStr ''You are Level 1 ASD, focused on learning, facts, and solving complex problems. Be analytical and educational.''),
      (''Savantist'', JStr ''You are Savantist, the expert in advanced trading insights. Provide deep analysis with maximum detail and precision.'')]"

definition getPersonalitySystemPrompt :: "string \<Rightarrow> js" where
  "getPersonalitySystemPrompt personality =
     (let p = get_property prompts personality
      in if truthy p then p else get_property prompts ''AUtistic AI'')"

subsection \<open>cleanupSession\<close>

text \<open>
  \<open>close()\<close> on a socket of the \<open>ws\<close> library: a connecting or open socket starts
  closing, a closing or closed one stays as it is.
\<close>

definition ws_close :: "nat \<Rightarrow> service \<Rightarrow> service" where
  "ws_close w s =
     (emit (UpstreamClose w) s)
       \<lparr>upstream := (case upstream s w of
                       Some CONNECTING \<Rightarrow> (upstream s)(w \<mapsto> CLOSING)
                     | Some OPEN \<Rightarrow> (upstream s)(w \<mapsto> CLOSING)
                     | _ \<Rightarrow> upstream s)\<rparr>"

text \<open>
  \<open>cleanupSession\<close>. A registry entry always refers to an existing session object;
  the branch for a reference without an object is there because the store is a partial
  map, and is never taken.
\<close>

definition cleanupSession :: "string \<Rightarrow> service \<Rightarrow> service" where
  "cleanupSession key s =
     (case activeSessions s key of
        None \<Rightarrow> s
      | Some a \<Rightarrow>
          (case sessionObjs s a of
             None \<Rightarrow> s
           | Some session \<Rightarrow>
               let s1 = s\<lparr>sessionObjs := (sessionObjs s)(a \<mapsto> session\<lparr>isActive := False\<rparr>)\<rparr>;
                   s2 = (case elevenLabsWs session of
                           None \<Rightarrow> s1
                         | Some w \<Rightarrow> ws_close w s1);
                   s3 = s2\<lparr>activeSessions := (activeSessions s2)(key := None)\<rparr>
               in emit (Console LogInfo (''[Voice] Session cleaned up: '' @ key)) s3))"

subsection \<open>initializeElevenLabs and the ElevenLabs socket handlers\<close>

text \<open>
  What a call of \<open>initializeVoiceSession\<close> reads from its surroundings: the two
  readings of \<open>Date.now()\<close>, \<open>process.env.ELEVENLABS_VOICE_ID\<close>, and whether
  \<open>new WebSocket(url)\<close> throws.
\<close>

record surroundings =
  now_key :: int
  now_start :: int
  voice_id :: "string option"
  ctor_throws :: bool

definition elevenLabsUrl :: "string option \<Rightarrow> string" where
  "elevenLabsUrl vid =
     (let voiceId = (case vid of None \<Rightarrow> ''default_voice_id''
                     | Some v \<Rightarrow> if v = [] then ''default_voice_id'' else v);
          modelId = ''eleven_turbo_v2_5''
      in ''wss://api.elevenlabs.io/v1/text-to-speech/'' @ voiceId @ ''/stream-input?model_id='' @ modelId)"

text \<open>
  The constructor returns a socket that is still connecting; the function stores it
  in the session object, registers the handlers \<open>elevenLabs_on_open\<close>,
  \<open>elevenLabs_on_message\<close> and \<open>elevenLabs_on_error\<close> below and returns without
  waiting for the connection.
\<close>

definition initializeElevenLabs :: "nat \<Rightarrow> nat \<Rightarrow> surroundings \<Rightarrow> service \<Rightarrow> outcome" where
  "initializeElevenLabs clientWs a env s =
     (if ctor_throws env then Threw ConnectError s
      else
        let w = nextRef s;
            s1 = (emit (UpstreamNew w (elevenLabsUrl (voice_id env))) s)
                   \<lparr>upstream := (upstream s)(w \<mapsto> CONNECTING), nextRef := Suc w\<rparr>;
            s2 = s1\<lparr>sessionObjs :=
                   (case sessionObjs s1 a of
                      None \<Rightarrow> sessionObjs s1
                    | Some vs \<Rightarrow> (sessionObjs s1)(a \<mapsto> vs\<lparr>elevenLabsWs := Some w\<rparr>))\<rparr>
        in Returned (emit (UpstreamOn w ''error'')
                      (emit (UpstreamOn w ''message'')
                        (emit (UpstreamOn w ''open'') s2))))"

text \<open>The \<open>open\<close> handler; \<open>api_key\<close> is \<open>process.env.ELEVENLABS_API_KEY\<close>.\<close>

definition elevenLabs_on_open :: "nat \<Rightarrow> string option \<Rightarrow> service \<Rightarrow> service" where
  "elevenLabs_on_open w api_key s =
     emit (UpstreamSend w (json_object
             [(''text'', JStr '' ''),
              (''voice_settings'', json_object
                 [(''stability'', JNum (1 / 2)),
                  (''similarity_boost'', JNum (4 / 5)),
                  (''speed'', JNum 1)]),
              (''xi_api_key'', (case api_key of None \<Rightarrow> JUndefined | Some k \<Rightarrow> JStr k))]))
       (emit (Console LogInfo ''[Voice] ElevenLabs WebSocket connected'') s)"

text \<open>
  \<open>cacheAudioOutput\<close>: \<open>token\<close> is what \<open>generateSecureToken()\<close> returns
  (\<open>None\<close> when it throws) and \<open>storage_fails\<close> whether the storage write rejects.
  The parameter \<open>audioBase64\<close> is not used by the body.
\<close>

record cache_surroundings =
  token :: "string option"
  storage_fails :: bool

definition cacheAudioOutput_body :: "string \<Rightarrow> string \<Rightarrow> js \<Rightarrow> cache_surroundings \<Rightarrow> service \<Rightarrow> outcome" where
  "cacheAudioOutput_body sid cid audioBase64 cenv s =
     (case token cenv of
        None \<Rightarrow> Threw TokenError s
      | Some secureToken \<Rightarrow>
          let audioUrl = ''/api/audio/'' @ secureToken;
              s1 = emit (StorageCreateAudioCache (json_object
                     [(''sessionId'', JStr sid),
                      (''conversationId'', JStr cid),
                      (''audioUrl'', JStr audioUrl),
                      (''secureToken'', JStr secureToken),
                      (''text'', JStr ''Voice conversation audio''),
                      (''voiceSettings'', json_object
                         [(''provider'', JStr ''elevenlabs''),
                          (''model'', JStr ''eleven_turbo_v2_5'')])])) s
          in if storage_fails cenv then Threw StorageError s1
             else Returned (emit (Console LogInfo ''[Voice] Audio cached with secure token'') s1))"

definition cacheAudioOutput :: "string \<Rightarrow> string \<Rightarrow> js \<Rightarrow> cache_surroundings \<Rightarrow> service \<Rightarrow> service" where
  "cacheAudioOutput sid cid audioBase64 cenv s =
     (case cacheAudioOutput_body sid cid audioBase64 cenv s of
        Returned s' \<Rightarrow> s'
      | Threw e s' \<Rightarrow> emit (Console LogError ''[Voice] Failed to cache audio:'') s')"

text \<open>
  The \<open>message\<close> handler of the ElevenLabs socket, for the captured \<open>clientWs\<close> and
  session object \<open>a\<close>.
\<close>

definition elevenLabs_on_message_body :: "nat \<Rightarrow> nat \<Rightarrow> parsed \<Rightarrow> cache_surroundings \<Rightarrow> service \<Rightarrow> outcome" where
  "elevenLabs_on_message_body clientWs a data cenv s =
     (case data of
        ParseFailure \<Rightarrow> Threw SyntaxError s
      | Parsed response \<Rightarrow>
          (case member_of response ''audio'' of
             Inl e \<Rightarrow> Threw e s
           | Inr audio \<Rightarrow>
               if truthy audio then
                 (case member_of response ''alignment'' of
                    Inl e \<Rightarrow> Threw e s
                  | Inr alignment \<Rightarrow>
                      let s1 = emit (ClientSend clientWs (json_object
                                 [(''type'', JStr ''audio_output''),
                                  (''audio'', audio),
                                  (''alignment'', alignment)])) s
                      in (case member_of response ''isFinal'' of
                            Inl e \<Rightarrow> Threw e s1
                          | Inr isFinal \<Rightarrow>
                              if truthy isFinal then
                                (case sessionObjs s1 a of
                                   None \<Rightarrow> Returned s1
                                 | Some voiceSession \<Rightarrow>
                                     Returned (cacheAudioOutput (sessionId voiceSession)
                                                 (conversationId voiceSession) audio cenv s1))
                              else Returned s1))
               else Returned s))"

definition elevenLabs_on_message :: "nat \<Rightarrow> nat \<Rightarrow> parsed \<Rightarrow> cache_surroundings \<Rightarrow> service \<Rightarrow> service" where
  "elevenLabs_on_message clientWs a data cenv s =
     (case elevenLabs_on_message_body clientWs a data cenv s of
        Returned s' \<Rightarrow> s'
      | Threw e s' \<Rightarrow> emit (Console LogError ''[Voice] ElevenLabs message error:'') s')"

text \<open>The \<open>error\<close> handler of the ElevenLabs socket.\<close>

definition elevenLabs_on_error :: "nat \<Rightarrow> service \<Rightarrow> service" where
  "elevenLabs_on_error clientWs s =
     emit (ClientSend clientWs (json_object
             [(''type'', JStr ''error''), (''message'', JStr ''TTS connection error'')]))
       (emit (Console LogError ''[Voice] ElevenLabs WebSocket error:'') s)"

subsection \<open>initializeGeminiLive\<close>

text \<open>
  The configuration object is built and dropped; building it calls
  \<open>getPersonalitySystemPrompt\<close>, which does not throw.
\<close>

definition initializeGeminiLive :: "nat \<Rightarrow> nat \<Rightarrow> string \<Rightarrow> service \<Rightarrow> outcome" where
  "initializeGeminiLive clientWs a personality s =
     (let system_instruction = getPersonalitySystemPrompt personality
      in Returned
           (emit (ClientSend clientWs (json_object
                    [(''type'', JStr ''voice_ready''), (''message'', JStr ''Voice streaming ready'')]))
              (emit (Console LogInfo ''[Voice] Gemini configuration prepared for personality:'') s)))"

subsection \<open>The client socket handlers\<close>

definition processAudioInput :: "js \<Rightarrow> nat \<Rightarrow> nat \<Rightarrow> service \<Rightarrow> service" where
  "processAudioInput audioData a clientWs s =
     emit (ClientSend clientWs (json_object
             [(''type'', JStr ''audio_processing''),
              (''message'', JStr ''Processing your speech...'')])) s"

text \<open>
  The guard \<open>!voiceSession.elevenLabsWs || readyState !== WebSocket.OPEN\<close> of
  \<open>processTextInput\<close> and \<open>handleStopSpeaking\<close>, negated: the socket to send on.
\<close>

definition open_link :: "nat \<Rightarrow> service \<Rightarrow> nat option" where
  "open_link a s =
     (case sessionObjs s a of
        None \<Rightarrow> None
      | Some voiceSession \<Rightarrow>
          (case elevenLabsWs voiceSession of
             None \<Rightarrow> None
           | Some w \<Rightarrow> if upstream s w = Some OPEN then Some w else None))"

definition processTextInput :: "js \<Rightarrow> nat \<Rightarrow> service \<Rightarrow> service" where
  "processTextInput text a s =
     (case open_link a s of
        None \<Rightarrow> emit (Console LogError ''[Voice] ElevenLabs WebSocket not ready'') s
      | Some w \<Rightarrow>
          emit (UpstreamSend w (json_object
                  [(''text'', text), (''try_trigger_generation'', JBool True)])) s)"

definition handleStopSpeaking :: "nat \<Rightarrow> service \<Rightarrow> service" where
  "handleStopSpeaking a s =
     (case open_link a s of
        None \<Rightarrow> s
      | Some w \<Rightarrow>
          emit (UpstreamSend w (json_object
                  [(''text'', JStr ''''), (''flush'', JBool True)])) s)"

text \<open>
  The \<open>message\<close> handler that \<open>setupClientHandlers\<close> registers on the client
  socket, for the captured \<open>clientWs\<close> and session object \<open>a\<close>.
\<close>

definition client_on_message_body :: "nat \<Rightarrow> nat \<Rightarrow> parsed \<Rightarrow> service \<Rightarrow> outcome" where
  "client_on_message_body clientWs a data s =
     (case data of
        ParseFailure \<Rightarrow> Threw SyntaxError s
      | Parsed message \<Rightarrow>
          (case member_of message ''type'' of
             Inl e \<Rightarrow> Threw e s
           | Inr ty \<Rightarrow>
               if ty = JStr ''audio_input'' then
                 (case member_of message ''audio'' of
                    Inl e \<Rightarrow> Threw e s
                  | Inr audio \<Rightarrow> Returned (processAudioInput audio a clientWs s))
               else if ty = JStr ''text_input'' then
                 (case member_of message ''text'' of
                    Inl e \<Rightarrow> Threw e s
                  | Inr text \<Rightarrow> Returned (processTextInput text a s))
               else if ty = JStr ''stop'' then Returned (handleStopSpeaking a s)
               else Returned (emit (Console LogWarn ''[Voice] Unknown message type:'') s)))"

definition client_on_message :: "nat \<Rightarrow> nat \<Rightarrow> parsed \<Rightarrow> service \<Rightarrow> service" where
  "client_on_message clientWs a data s =
     (case client_on_message_body clientWs a data s of
        Returned s' \<Rightarrow> s'
      | Threw e s' \<Rightarrow> emit (Console LogError ''[Voice] Client message error:'') s')"

text \<open>The \<open>close\<close> handler registered on the client socket.\<close>

definition client_on_close :: "nat \<Rightarrow> service \<Rightarrow> service" where
  "client_on_close a s =
     (let s1 = emit (Console LogInfo ''[Voice] Client disconnected'') s
      in case sessionObjs s1 a of
           None \<Rightarrow> s1
         | Some voiceSession \<Rightarrow> cleanupSession (sessionId voiceSession) s1)"

text \<open>
  \<open>setupClientHandlers\<close> registers \<open>client_on_message clientWs a\<close> and
  \<open>client_on_close a\<close> on the client socket.
\<close>

definition setupClientHandlers :: "nat \<Rightarrow> nat \<Rightarrow> service \<Rightarrow> service" where
  "setupClientHandlers clientWs a s =
     emit (ClientOn clientWs ''close'') (emit (ClientOn clientWs ''message'') s)"

subsection \<open>initializeVoiceSession\<close>

definition streamSessionId :: "string \<Rightarrow> int \<Rightarrow> string" where
  "streamSessionId sid now = sid @ ''-'' @ show_int now"

definition initializeVoiceSession_try :: "nat \<Rightarrow> nat \<Rightarrow> string \<Rightarrow> surroundings \<Rightarrow> service \<Rightarrow> outcome" where
  "initializeVoiceSession_try clientWs a personality env s =
     (case initializeElevenLabs clientWs a env s of
        Threw e s' \<Rightarrow> Threw e s'
      | Returned s1 \<Rightarrow>
          (case initializeGeminiLive clientWs a personality s1 of
             Threw e s' \<Rightarrow> Threw e s'
           | Returned s2 \<Rightarrow> Returned (setupClientHandlers clientWs a s2)))"

definition initializeVoiceSession :: "nat \<Rightarrow> string \<Rightarrow> string \<Rightarrow> string \<Rightarrow> surroundings \<Rightarrow> service \<Rightarrow> service" where
  "initializeVoiceSession clientWs sid cid personality env s =
     (let key = streamSessionId sid (now_key env);
          s1 = emit (Console LogInfo (''[Voice] Initializing voice session: '' @ key)) s;
          a = nextRef s1;
          voiceSession = \<lparr>sessionId = key, conversationId = cid, elevenLabsWs = None,
                          isActive = True, startTime = now_start env\<rparr>;
          s2 = s1\<lparr>sessionObjs := (sessionObjs s1)(a \<mapsto> voiceSession), nextRef := Suc a\<rparr>;
          s3 = s2\<lparr>activeSessions := (activeSessions s2)(key \<mapsto> a)\<rparr>
      in case initializeVoiceSession_try clientWs a personality env s3 of
           Returned s' \<Rightarrow> s'
         | Threw e s' \<Rightarrow>
             cleanupSession key
               (emit (ClientSend clientWs (json_object
                        [(''type'', JStr ''error''),
                         (''message'', JStr ''Failed to initialize voice streaming'')]))
                  (emit (Console LogError ''[Voice] Failed to initialize voice session:'') s')))"

subsection \<open>Predicates and example states used in the statements\<close>

text \<open>
  A client frame the \<open>switch\<close> of the client message handler has a case for: it
  parses, and its \<open>type\<close> is one of the three discriminators.
\<close>

definition known_discriminator :: "parsed \<Rightarrow> bool" where
  "known_discriminator data =
     (case data of
        ParseFailure \<Rightarrow> False
      | Parsed message \<Rightarrow>
          member_of message ''type'' = Inr (JStr ''audio_input'')
          \<or> member_of message ''type'' = Inr (JStr ''text_input'')
          \<or> member_of message ''type'' = Inr (JStr ''stop''))"

text \<open>
  A session created on an empty service for the client socket 7, and the same state
  once the ElevenLabs socket has connected (the library sets \<open>readyState\<close> to
  \<open>OPEN\<close> before it emits \<open>open\<close>).
\<close>

definition env0 :: surroundings where
  "env0 = \<lparr>now_key = 1700000000000, now_start = 1700000000001, voice_id = None,
            ctor_throws = False\<rparr>"

definition example_ready :: service where
  "example_ready = initializeVoiceSession 7 ''s1'' ''c1'' ''Savantist'' env0 initial"

definition example_open :: service where
  "example_open = example_ready\<lparr>upstream := (upstream example_ready)(1 \<mapsto> OPEN)\<rparr>"

text \<open>
  A second creation for the same \<open>sessionId\<close> in the same millisecond; the first
  session after its connection attempt failed (the library moves the socket to
  \<open>CLOSING\<close> and emits \<open>error\<close>); surroundings in which the WebSocket constructor
  throws.
\<close>

definition example_twice :: service where
  "example_twice = initializeVoiceSession 8 ''s1'' ''c1'' ''Savantist'' env0 example_ready"

definition example_failed :: service where
  "example_failed =
     elevenLabs_on_error 7 (example_ready\<lparr>upstream := (upstream example_ready)(1 \<mapsto> CLOSING)\<rparr>)"

definition env_throw :: surroundings where
  "env_throw = \<lparr>now_key = 1700000000000, now_start = 1700000000001, voice_id = None,
                 ctor_throws = True\<rparr>"

text \<open>Storage that accepts the write, and storage that rejects it.\<close>

definition cache_ok :: cache_surroundings where
  "cache_ok = \<lparr>token = Some ''tok1'', storage_fails = False\<rparr>"

definition cache_down :: cache_surroundings where
  "cache_down = \<lparr>token = Some ''tok1'', storage_fails = True\<rparr>"

text \<open>Parsed frames.\<close>

definition ping :: js where
  "ping = JObj [(''type'', JStr ''ping'')]"

definition stop_frame :: js where
  "stop_frame = JObj [(''type'', JStr ''stop'')]"

definition hello_frame :: js where
  "hello_frame = JObj [(''type'', JStr ''text_input''), (''text'', JStr ''hello'')]"

definition final_audio :: js where
  "final_audio = JObj [(''audio'', JStr ''QUJD''), (''isFinal'', JBool True)]"

definition final_only :: js where
  "final_only = JObj [(''isFinal'', JBool True)]"

section \<open>Properties\<close>

subsection \<open>Decimal rendering is injective\<close>

lemma digit_char_inj: "d < 10 \<Longrightarrow> e < 10 \<Longrightarrow> digit_char d = digit_char e \<Longrightarrow> d = e"
proof -
  assume d: "d < 10" and e: "e < 10" and eq: "digit_char d = digit_char e"
  have ds: "d \<in> {0, 1, 2, 3, 4, 5, 6, 7, 8, 9}" using d by auto
  have es: "e \<in> {0, 1, 2, 3, 4, 5, 6, 7, 8, 9}" using e by auto
  show ?thesis using ds es eq by (auto simp: digit_char_def)
qed

lemma digit_char_not_minus: "d < 10 \<Longrightarrow> digit_char d \<noteq> CHR ''-''"
proof -
  assume d: "d < 10"
  have ds: "d \<in> {0, 1, 2, 3, 4, 5, 6, 7, 8, 9}" using d by auto
  show ?thesis using ds by (auto simp: digit_char_def)
qed

lemma show_nat_not_Nil: "show_nat n \<noteq> []"
  by (subst show_nat.simps) simp

lemma show_nat_no_minus: "CHR ''-'' \<notin> set (show_nat n)"
proof (induction n rule: show_nat.induct)
  case (1 n)
  show ?case
  proof (cases "n < 10")
    case True
    then show ?thesis using digit_char_not_minus [of n] by (subst show_nat.simps) auto
  next
    case False
    then have "n mod 10 < 10" by simp
    then show ?thesis using False 1 digit_char_not_minus [of "n mod 10"]
      by (subst show_nat.simps) auto
  qed
qed

lemma show_nat_inj: "show_nat n = show_nat m \<Longrightarrow> n = m"
proof (induction n arbitrary: m rule: show_nat.induct)
  case (1 n)
  show ?case
  proof (cases "n < 10")
    case n: True
    show ?thesis
    proof (cases "m < 10")
      case True
      with n 1(2) show ?thesis
        by (simp add: show_nat.simps [of n] show_nat.simps [of m] digit_char_inj)
    next
      case False
      with n 1(2) show_nat_not_Nil [of "m div 10"] show ?thesis
        by (simp add: show_nat.simps [of n] show_nat.simps [of m])
    qed
  next
    case n: False
    show ?thesis
    proof (cases "m < 10")
      case True
      with n 1(2) show_nat_not_Nil [of "n div 10"] show ?thesis
        by (simp add: show_nat.simps [of n] show_nat.simps [of m])
    next
      case False
      with n 1(2) have a: "show_nat (n div 10) = show_nat (m div 10)"
        and b: "digit_char (n mod 10) = digit_char (m mod 10)"
        by (simp_all add: show_nat.simps [of n] show_nat.simps [of m])
      from 1(1) [OF n a] have c: "n div 10 = m div 10" .
      have "n mod 10 = m mod 10" using b by (intro digit_char_inj) simp_all
      with c show ?thesis by (metis div_mult_mod_eq)
    qed
  qed
qed

lemma split_at_last:
  "xs @ c # ys = xs' @ c # ys' \<Longrightarrow> c \<notin> set ys \<Longrightarrow> c \<notin> set ys' \<Longrightarrow> xs = xs' \<and> ys = ys'"
  by (induction xs arbitrary: xs') (auto simp: Cons_eq_append_conv append_eq_Cons_conv)

lemma streamSessionId_inj:
  assumes "0 \<le> t1" and "0 \<le> t2"
    and eq: "streamSessionId sid1 t1 = streamSessionId sid2 t2"
  shows "sid1 = sid2 \<and> t1 = t2"
proof -
  from assms have "sid1 @ CHR ''-'' # show_nat (nat t1) = sid2 @ CHR ''-'' # show_nat (nat t2)"
    by (simp add: streamSessionId_def show_int_def)
  from split_at_last [OF this show_nat_no_minus show_nat_no_minus]
  have "sid1 = sid2" and "show_nat (nat t1) = show_nat (nat t2)" by simp_all
  with assms show ?thesis using show_nat_inj [of "nat t1" "nat t2"] by simp
qed

subsection \<open>The example states, evaluated\<close>

lemmas service_defs =
  initializeVoiceSession_def initializeVoiceSession_try_def initializeElevenLabs_def
  initializeGeminiLive_def setupClientHandlers_def emit_def initial_def
  streamSessionId_def show_int_def show_nat.simps digit_char_def json_object_def
  elevenLabsUrl_def Let_def

lemma example_ready_eq:
  "example_ready =
     \<lparr>activeSessions = [''s1-1700000000000'' \<mapsto> 0],
      sessionObjs = [0 \<mapsto> \<lparr>sessionId = ''s1-1700000000000'', conversationId = ''c1'',
                           elevenLabsWs = Some 1, isActive = True, startTime = 1700000000001\<rparr>],
      upstream = [1 \<mapsto> CONNECTING],
      nextRef = 2,
      effects =
        [Console LogInfo ''[Voice] Initializing voice session: s1-1700000000000'',
         UpstreamNew 1 ''wss://api.elevenlabs.io/v1/text-to-speech/default_voice_id/stream-input?model_id=eleven_turbo_v2_5'',
         UpstreamOn 1 ''open'',
         UpstreamOn 1 ''message'',
         UpstreamOn 1 ''error'',
         Console LogInfo ''[Voice] Gemini configuration prepared for personality:'',
         ClientSend 7 (JObj [(''type'', JStr ''voice_ready''), (''message'', JStr ''Voice streaming ready'')]),
         ClientOn 7 ''message'',
         ClientOn 7 ''close'']\<rparr>"
  by (simp add: example_ready_def env0_def service_defs)

lemma example_open_eq:
  "example_open =
     \<lparr>activeSessions = [''s1-1700000000000'' \<mapsto> 0],
      sessionObjs = [0 \<mapsto> \<lparr>sessionId = ''s1-1700000000000'', conversationId = ''c1'',
                           elevenLabsWs = Some 1, isActive = True, startTime = 1700000000001\<rparr>],
      upstream = [1 \<mapsto> OPEN],
      nextRef = 2,
      effects = effects example_ready\<rparr>"
  by (simp add: example_open_def example_ready_eq)

lemma example_open_session:
  "sessionObjs example_open 0 = Some \<lparr>sessionId = ''s1-1700000000000'',
     conversationId = ''c1'', elevenLabsWs = Some 1, isActive = True, startTime = 1700000000001\<rparr>"
  by (simp add: example_open_eq)

lemma example_open_upstream: "upstream example_open 1 = Some OPEN"
  by (simp add: example_open_eq)

lemma example_twice_eq:
  "activeSessions example_twice = [''s1-1700000000000'' \<mapsto> 2]
   \<and> sessionObjs example_twice 0 =
       Some \<lparr>sessionId = ''s1-1700000000000'', conversationId = ''c1'',
             elevenLabsWs = Some 1, isActive = True, startTime = 1700000000001\<rparr>"
  by (simp add: example_twice_def example_ready_eq env0_def service_defs)

lemma member_simps:
  "member_of ping ''type'' = Inr (JStr ''ping'')"
  "member_of stop_frame ''type'' = Inr (JStr ''stop'')"
  "member_of hello_frame ''type'' = Inr (JStr ''text_input'')"
  "member_of hello_frame ''text'' = Inr (JStr ''hello'')"
  "member_of final_audio ''audio'' = Inr (JStr ''QUJD'')"
  "member_of final_audio ''alignment'' = Inr JUndefined"
  "member_of final_audio ''isFinal'' = Inr (JBool True)"
  "member_of final_only ''audio'' = Inr JUndefined"
  by (simp_all add: ping_def stop_frame_def hello_frame_def final_audio_def final_only_def
      get_property_def object_prototype_names_def)

subsection \<open>Session keys\<close>

text \<open>
  Claim C1, as amended. Two session creations get the same \<open>sessionKey\<close> exactly when
  they have the same \<open>sessionId\<close> and read the same millisecond from \<open>Date.now()\<close>
  (for a clock that is not negative): keys are pairwise distinct across creations that
  differ in \<open>sessionId\<close> or in millisecond. The registry is a map from keys, so it
  holds at most one session per key: after a creation whose socket constructor does not
  throw, the key is bound to the session just created.
\<close>

theorem sessionKey_distinct_iff:
  assumes "0 \<le> t1" and "0 \<le> t2"
  shows "(streamSessionId sid1 t1 = streamSessionId sid2 t2) = (sid1 = sid2 \<and> t1 = t2)
    \<and> (\<not> ctor_throws env \<longrightarrow>
         activeSessions (initializeVoiceSession c sid cid p env s)
           (streamSessionId sid (now_key env)) = Some (nextRef s))"
proof -
  have "(streamSessionId sid1 t1 = streamSessionId sid2 t2) = (sid1 = sid2 \<and> t1 = t2)"
    using streamSessionId_inj [OF assms] by blast
  moreover have "\<not> ctor_throws env \<longrightarrow>
         activeSessions (initializeVoiceSession c sid cid p env s)
           (streamSessionId sid (now_key env)) = Some (nextRef s)"
    by (simp add: initializeVoiceSession_def initializeVoiceSession_try_def
        initializeElevenLabs_def initializeGeminiLive_def setupClientHandlers_def emit_def Let_def)
  ultimately show ?thesis by blast
qed

theorem sessionKey_distinct_iff_witness:
  "(0::int) \<le> 1700000000000 \<and> (0::int) \<le> 1700000000001 \<and> \<not> ctor_throws env0
   \<and> streamSessionId ''s1'' 1700000000000 \<noteq> streamSessionId ''s1'' 1700000000001
   \<and> activeSessions (initializeVoiceSession 7 ''s1'' ''c1'' ''Savantist'' env0 initial)
        (streamSessionId ''s1'' (now_key env0)) = Some 0"
proof -
  have a: "(0::int) \<le> 1700000000000" and b: "(0::int) \<le> 1700000000001" by simp_all
  have c: "\<not> ctor_throws env0" by (simp add: env0_def)
  have n: "nextRef initial = 0" by (simp add: initial_def)
  show ?thesis
    using a b c n
      sessionKey_distinct_iff [OF a b, of "''s1''" "''s1''" env0 7 "''s1''" "''c1''"
        "''Savantist''" initial]
    by simp
qed

text \<open>
  Claim C1 as stated fails: two creations for the \<open>sessionId\<close> \<open>s1\<close> that read the
  same millisecond get the same key \<open>s1-1700000000000\<close>. The second creation rebinds
  the key, and the first session (object 0), still alive, is no longer in the registry.
\<close>

theorem sessionKey_collision:
  "streamSessionId ''s1'' (now_key env0) = ''s1-1700000000000''
   \<and> activeSessions example_ready ''s1-1700000000000'' = Some 0
   \<and> activeSessions example_twice ''s1-1700000000000'' = Some 2
   \<and> dom (activeSessions example_twice) = {''s1-1700000000000''}
   \<and> sessionObjs example_twice 0 \<noteq> None"
  by (simp add: example_twice_eq example_ready_eq)
    (simp add: env0_def streamSessionId_def show_int_def show_nat.simps digit_char_def)

subsection \<open>Initialization failure\<close>

text \<open>
  Claim C2, as amended. When creating the ElevenLabs socket throws during
  \<open>initializeVoiceSession\<close>, no \<open>voice_ready\<close> frame is sent and no handler is
  registered, the client receives the one error frame
  \<open>{type: error, message: Failed to initialize voice streaming}\<close>, and the registry
  entry under the session's key is removed before the call returns. No entry under
  another key, no other session object and no socket changes.
\<close>

theorem init_constructor_failure:
  assumes "ctor_throws env"
  shows "initializeVoiceSession c sid cid p env s =
     s\<lparr>activeSessions := (activeSessions s)(streamSessionId sid (now_key env) := None),
       sessionObjs := (sessionObjs s)(nextRef s \<mapsto>
          \<lparr>sessionId = streamSessionId sid (now_key env), conversationId = cid,
           elevenLabsWs = None, isActive = False, startTime = now_start env\<rparr>),
       nextRef := Suc (nextRef s),
       effects := effects s @
         [Console LogInfo (''[Voice] Initializing voice session: '' @ streamSessionId sid (now_key env)),
          Console LogError ''[Voice] Failed to initialize voice session:'',
          ClientSend c (JObj [(''type'', JStr ''error''),
                              (''message'', JStr ''Failed to initialize voice streaming'')]),
          Console LogInfo (''[Voice] Session cleaned up: '' @ streamSessionId sid (now_key env))]\<rparr>"
  using assms
  by (simp add: initializeVoiceSession_def initializeVoiceSession_try_def initializeElevenLabs_def
      cleanupSession_def emit_def json_object_def Let_def)

theorem init_constructor_failure_witness:
  "ctor_throws env_throw
   \<and> effects (initializeVoiceSession 9 ''s2'' ''c2'' ''Savantist'' env_throw example_open) =
       effects example_open @
         [Console LogInfo ''[Voice] Initializing voice session: s2-1700000000000'',
          Console LogError ''[Voice] Failed to initialize voice session:'',
          ClientSend 9 (JObj [(''type'', JStr ''error''),
                              (''message'', JStr ''Failed to initialize voice streaming'')]),
          Console LogInfo ''[Voice] Session cleaned up: s2-1700000000000'']
   \<and> activeSessions (initializeVoiceSession 9 ''s2'' ''c2'' ''Savantist'' env_throw example_open)
       = [''s1-1700000000000'' \<mapsto> 0]
   \<and> upstream (initializeVoiceSession 9 ''s2'' ''c2'' ''Savantist'' env_throw example_open)
       = upstream example_open"
proof -
  have h: "ctor_throws env_throw" by (simp add: env_throw_def)
  have k: "streamSessionId ''s2'' (now_key env_throw) = ''s2-1700000000000''"
    by (simp add: env_throw_def streamSessionId_def show_int_def show_nat.simps digit_char_def)
  show ?thesis
    using h init_constructor_failure [OF h, of 9 "''s2''" "''c2''" "''Savantist''" example_open]
    by (simp add: k example_open_eq fun_upd_idem)
qed

text \<open>
  Claim C2 as stated fails when the connection attempt fails after the constructor
  returned: \<open>initializeElevenLabs\<close> does not wait for the socket to open, so
  \<open>voice_ready\<close> was already sent when the socket's \<open>error\<close> event arrives, and the
  \<open>error\<close> handler leaves the session in the registry.
\<close>

theorem async_connect_failure:
  "effects example_failed =
     [Console LogInfo ''[Voice] Initializing voice session: s1-1700000000000'',
      UpstreamNew 1 ''wss://api.elevenlabs.io/v1/text-to-speech/default_voice_id/stream-input?model_id=eleven_turbo_v2_5'',
      UpstreamOn 1 ''open'',
      UpstreamOn 1 ''message'',
      UpstreamOn 1 ''error'',
      Console LogInfo ''[Voice] Gemini configuration prepared for personality:'',
      ClientSend 7 (JObj [(''type'', JStr ''voice_ready''), (''message'', JStr ''Voice streaming ready'')]),
      ClientOn 7 ''message'',
      ClientOn 7 ''close'',
      Console LogError ''[Voice] ElevenLabs WebSocket error:'',
      ClientSend 7 (JObj [(''type'', JStr ''error''), (''message'', JStr ''TTS connection error'')])]
   \<and> activeSessions example_failed ''s1-1700000000000'' = Some 0"
  by (simp add: example_failed_def example_ready_eq elevenLabs_on_error_def emit_def json_object_def)

subsection \<open>Synthesis link errors\<close>

text \<open>
  Claim C3, as amended. For every \<open>error\<close> event of the synthesis link of a registered
  session, the handler sends the client exactly one error frame
  \<open>{type: error, message: TTS connection error}\<close> and changes nothing else: the
  link is not closed and the registry entry stays. Teardown follows when the client
  socket closes: the \<open>close\<close> handler then closes the link and removes the entry.
\<close>

theorem synthesis_error_handler:
  assumes "sessionObjs s a = Some vs"
    and "activeSessions s (sessionId vs) = Some a"
    and "elevenLabsWs vs = Some w"
  shows "elevenLabs_on_error c s =
           s\<lparr>effects := effects s @
               [Console LogError ''[Voice] ElevenLabs WebSocket error:'',
                ClientSend c (JObj [(''type'', JStr ''error''),
                                    (''message'', JStr ''TTS connection error'')])]\<rparr>
         \<and> activeSessions (client_on_close a (elevenLabs_on_error c s)) (sessionId vs) = None
         \<and> effects (client_on_close a (elevenLabs_on_error c s)) =
             effects s @
               [Console LogError ''[Voice] ElevenLabs WebSocket error:'',
                ClientSend c (JObj [(''type'', JStr ''error''),
                                    (''message'', JStr ''TTS connection error'')]),
                Console LogInfo ''[Voice] Client disconnected'',
                UpstreamClose w,
                Console LogInfo (''[Voice] Session cleaned up: '' @ sessionId vs)]"
  using assms
  by (simp add: elevenLabs_on_error_def client_on_close_def cleanupSession_def ws_close_def
      emit_def json_object_def Let_def)

theorem synthesis_error_handler_witness:
  "sessionObjs example_open 0 = Some \<lparr>sessionId = ''s1-1700000000000'', conversationId = ''c1'',
       elevenLabsWs = Some 1, isActive = True, startTime = 1700000000001\<rparr>
   \<and> activeSessions example_open ''s1-1700000000000'' = Some 0
   \<and> activeSessions (client_on_close 0 (elevenLabs_on_error 7 example_open)) ''s1-1700000000000'' = None
   \<and> effects (client_on_close 0 (elevenLabs_on_error 7 example_open)) =
             effects example_open @
               [Console LogError ''[Voice] ElevenLabs WebSocket error:'',
                ClientSend 7 (JObj [(''type'', JStr ''error''),
                                    (''message'', JStr ''TTS connection error'')]),
                Console LogInfo ''[Voice] Client disconnected'',
                UpstreamClose 1,
                Console LogInfo ''[Voice] Session cleaned up: s1-1700000000000'']"
proof -
  have h2: "activeSessions example_open (sessionId \<lparr>sessionId = ''s1-1700000000000'',
       conversationId = ''c1'', elevenLabsWs = Some 1, isActive = True, startTime = 1700000000001\<rparr>)
       = Some 0"
    by (simp add: example_open_eq)
  have h3: "elevenLabsWs \<lparr>sessionId = ''s1-1700000000000'',
       conversationId = ''c1'', elevenLabsWs = Some 1, isActive = True, startTime = 1700000000001\<rparr>
       = Some 1" by simp
  show ?thesis
    using example_open_session h2
      conjunct2 [OF synthesis_error_handler [OF example_open_session h2 h3, of 7]]
    by simp
qed

text \<open>
  Claim C3 as stated fails: after the \<open>error\<close> handler ran on an established session,
  the session is still in the registry and \<open>close\<close> was not called on the link.
\<close>

theorem synthesis_error_no_teardown:
  "activeSessions (elevenLabs_on_error 7 example_open) ''s1-1700000000000'' = Some 0
   \<and> upstream (elevenLabs_on_error 7 example_open) 1 = Some OPEN
   \<and> effects (elevenLabs_on_error 7 example_open) =
       effects example_open @
         [Console LogError ''[Voice] ElevenLabs WebSocket error:'',
          ClientSend 7 (JObj [(''type'', JStr ''error''), (''message'', JStr ''TTS connection error'')])]
   \<and> UpstreamClose 1 \<notin> set (effects (elevenLabs_on_error 7 example_open))"
  by (simp add: example_open_eq example_ready_eq elevenLabs_on_error_def emit_def json_object_def)

subsection \<open>Provider frames\<close>

text \<open>
  Claim C4. For every provider frame whose parsed JSON has a truthy \<open>audio\<close>, the
  handler first sends the client the frame \<open>{type: audio_output, audio, alignment}\<close>
  with that payload (\<open>alignment\<close> left out when the provider sent none). Exactly when
  \<open>isFinal\<close> is truthy, \<open>cacheAudioOutput\<close> runs after that send: it calls the
  storage with a new entry, unless the token generator throws, and logs the outcome.
  A failure of the token generator or of the storage write only changes that log line:
  the trace up to and including the client send is the same for every outcome.
\<close>

theorem audio_frame_forwarded:
  assumes "sessionObjs s a = Some vs"
    and "member_of response ''audio'' = Inr audio"
    and "truthy audio"
    and "member_of response ''alignment'' = Inr alignment"
    and "member_of response ''isFinal'' = Inr isFinal"
  shows "elevenLabs_on_message c a (Parsed response) cenv s =
     s\<lparr>effects := effects s @
        ClientSend c (json_object [(''type'', JStr ''audio_output''), (''audio'', audio),
                                   (''alignment'', alignment)])
        # (if truthy isFinal then
             (case token cenv of
                None \<Rightarrow> [Console LogError ''[Voice] Failed to cache audio:'']
              | Some t \<Rightarrow>
                  [StorageCreateAudioCache (JObj
                     [(''sessionId'', JStr (sessionId vs)),
                      (''conversationId'', JStr (conversationId vs)),
                      (''audioUrl'', JStr (''/api/audio/'' @ t)),
                      (''secureToken'', JStr t),
                      (''text'', JStr ''Voice conversation audio''),
                      (''voiceSettings'', JObj [(''provider'', JStr ''elevenlabs''),
                                               (''model'', JStr ''eleven_turbo_v2_5'')])]),
                   if storage_fails cenv
                   then Console LogError ''[Voice] Failed to cache audio:''
                   else Console LogInfo ''[Voice] Audio cached with secure token''])
           else [])\<rparr>"
  using assms
  by (simp add: elevenLabs_on_message_def elevenLabs_on_message_body_def cacheAudioOutput_def
      cacheAudioOutput_body_def emit_def json_object_def Let_def split: option.splits)

theorem audio_frame_forwarded_witness:
  "truthy (JStr ''QUJD'')
   \<and> effects (elevenLabs_on_message 7 0 (Parsed final_audio) cache_down example_open) =
       effects example_open @
       [ClientSend 7 (JObj [(''type'', JStr ''audio_output''), (''audio'', JStr ''QUJD'')]),
        StorageCreateAudioCache (JObj
                     [(''sessionId'', JStr ''s1-1700000000000''),
                      (''conversationId'', JStr ''c1''),
                      (''audioUrl'', JStr ''/api/audio/tok1''),
                      (''secureToken'', JStr ''tok1''),
                      (''text'', JStr ''Voice conversation audio''),
                      (''voiceSettings'', JObj [(''provider'', JStr ''elevenlabs''),
                                               (''model'', JStr ''eleven_turbo_v2_5'')])]),
        Console LogError ''[Voice] Failed to cache audio:'']"
proof -
  have t: "truthy (JStr ''QUJD'')" by simp
  show ?thesis
    using t audio_frame_forwarded [OF example_open_session member_simps(5) t member_simps(6)
        member_simps(7), of 7 cache_down]
    by (simp add: cache_down_def json_object_def)
qed

text \<open>
  Claim C10. For every provider frame whose parsed JSON has no truthy \<open>audio\<close>, a
  frame \<open>{isFinal: true}\<close> included, the handler sends nothing to the client and does
  not call \<open>cacheAudioOutput\<close>: the service state, trace included, is unchanged (when
  the frame is \<open>null\<close>, reading \<open>audio\<close> throws and the handler logs the error, and
  that is all).
\<close>

theorem frame_without_audio_dropped:
  assumes "\<forall>audio. member_of response ''audio'' = Inr audio \<longrightarrow> \<not> truthy audio"
  shows "elevenLabs_on_message c a (Parsed response) cenv s =
     (case member_of response ''audio'' of
        Inr audio \<Rightarrow> s
      | Inl e \<Rightarrow> emit (Console LogError ''[Voice] ElevenLabs message error:'') s)"
  using assms
  by (simp add: elevenLabs_on_message_def elevenLabs_on_message_body_def split: sum.splits)

theorem frame_without_audio_dropped_witness:
  "member_of final_only ''audio'' = Inr JUndefined \<and> \<not> truthy JUndefined
   \<and> elevenLabs_on_message 7 0 (Parsed final_only) cache_ok example_open = example_open"
proof -
  have h: "\<forall>audio. member_of final_only ''audio'' = Inr audio \<longrightarrow> \<not> truthy audio"
    by (simp add: member_simps)
  show ?thesis
    using frame_without_audio_dropped [OF h, of 7 0 cache_ok example_open]
    by (simp add: member_simps)
qed

subsection \<open>Client frames\<close>

lemma open_link_emit: "open_link a (emit e s) = open_link a s"
  by (simp add: open_link_def emit_def split: option.splits)

text \<open>
  Claim C5. For every client frame \<open>{type: text_input, text: t}\<close>: when the session's
  ElevenLabs socket is \<open>OPEN\<close>, the handler sends the provider exactly
  \<open>{text: t, try_trigger_generation: true}\<close> and does nothing else; when the session
  has no socket or the socket is not \<open>OPEN\<close>, the handler only logs that the socket is
  not ready: nothing is sent upstream or to the client, and nothing is thrown.
\<close>

theorem text_input_forwarded:
  assumes "sessionObjs s a = Some vs"
    and "member_of message ''type'' = Inr (JStr ''text_input'')"
    and "member_of message ''text'' = Inr t"
    and "t \<noteq> JUndefined"
  shows "client_on_message c a (Parsed message) s =
     (case elevenLabsWs vs of
        None \<Rightarrow> emit (Console LogError ''[Voice] ElevenLabs WebSocket not ready'') s
      | Some w \<Rightarrow>
          if upstream s w = Some OPEN
          then emit (UpstreamSend w (JObj [(''text'', t), (''try_trigger_generation'', JBool True)])) s
          else emit (Console LogError ''[Voice] ElevenLabs WebSocket not ready'') s)"
  using assms
  by (simp add: client_on_message_def client_on_message_body_def processTextInput_def
      open_link_def json_object_def split: option.splits)

theorem text_input_forwarded_witness:
  "JStr ''hello'' \<noteq> JUndefined
   \<and> client_on_message 7 0 (Parsed hello_frame) example_open =
       emit (UpstreamSend 1 (JObj [(''text'', JStr ''hello''), (''try_trigger_generation'', JBool True)]))
         example_open
   \<and> client_on_message 7 0 (Parsed hello_frame) example_ready =
       emit (Console LogError ''[Voice] ElevenLabs WebSocket not ready'') example_ready"
proof -
  have n: "JStr ''hello'' \<noteq> JUndefined" by simp
  have r: "sessionObjs example_ready 0 = Some \<lparr>sessionId = ''s1-1700000000000'',
       conversationId = ''c1'', elevenLabsWs = Some 1, isActive = True, startTime = 1700000000001\<rparr>"
    by (simp add: example_ready_eq)
  have u: "upstream example_ready 1 = Some CONNECTING" by (simp add: example_ready_eq)
  show ?thesis
    using n u example_open_upstream
      text_input_forwarded [OF example_open_session member_simps(3) member_simps(4) n, of 7]
      text_input_forwarded [OF r member_simps(3) member_simps(4) n, of 7]
    by simp
qed

lemma client_on_message_after_emit:
  "client_on_message c a d (emit e s) =
     (client_on_message c a d s)
       \<lparr>effects := effects s @ e # drop (length (effects s)) (effects (client_on_message c a d s))\<rparr>"
  by (auto simp: client_on_message_def client_on_message_body_def processAudioInput_def
      processTextInput_def handleStopSpeaking_def open_link_def emit_def
      split: parsed.splits sum.splits option.splits)

text \<open>
  Claim C7. For every client frame \<open>{type: stop}\<close> handled while the session's
  ElevenLabs socket is \<open>OPEN\<close>, the handler sends the provider exactly
  \<open>{text: "", flush: true}\<close> and changes nothing else: the registry, the session
  object and the socket are as before and \<open>close\<close> is not called. Every frame that
  follows is processed as it would have been without the \<open>stop\<close>: it leaves the
  state it would have left, with the same new calls in the trace, after the flush.
\<close>

theorem stop_flushes_and_keeps_session:
  assumes "sessionObjs s a = Some vs"
    and "elevenLabsWs vs = Some w"
    and "upstream s w = Some OPEN"
    and "member_of message ''type'' = Inr (JStr ''stop'')"
  shows "client_on_message c a (Parsed message) s =
           s\<lparr>effects := effects s @ [UpstreamSend w (JObj [(''text'', JStr ''''), (''flush'', JBool True)])]\<rparr>
         \<and> client_on_message c a next_frame (client_on_message c a (Parsed message) s) =
           (client_on_message c a next_frame s)
             \<lparr>effects := effects s
                @ UpstreamSend w (JObj [(''text'', JStr ''''), (''flush'', JBool True)])
                # drop (length (effects s)) (effects (client_on_message c a next_frame s))\<rparr>"
proof -
  have one: "client_on_message c a (Parsed message) s =
      emit (UpstreamSend w (JObj [(''text'', JStr ''''), (''flush'', JBool True)])) s"
    using assms
    by (simp add: client_on_message_def client_on_message_body_def handleStopSpeaking_def
        open_link_def json_object_def)
  show ?thesis
    unfolding one client_on_message_after_emit by (simp add: emit_def)
qed

theorem stop_flushes_and_keeps_session_witness:
  "upstream example_open 1 = Some OPEN
   \<and> client_on_message 7 0 (Parsed stop_frame) example_open =
       example_open\<lparr>effects := effects example_open @
         [UpstreamSend 1 (JObj [(''text'', JStr ''''), (''flush'', JBool True)])]\<rparr>
   \<and> client_on_message 7 0 (Parsed hello_frame)
         (client_on_message 7 0 (Parsed stop_frame) example_open) =
       example_open\<lparr>effects := effects example_open @
         [UpstreamSend 1 (JObj [(''text'', JStr ''''), (''flush'', JBool True)]),
          UpstreamSend 1 (JObj [(''text'', JStr ''hello''),
                                (''try_trigger_generation'', JBool True)])]\<rparr>"
proof -
  have w: "elevenLabsWs \<lparr>sessionId = ''s1-1700000000000'',
       conversationId = ''c1'', elevenLabsWs = Some 1, isActive = True, startTime = 1700000000001\<rparr>
       = Some 1" by simp
  have h: "client_on_message 7 0 (Parsed hello_frame) example_open =
       emit (UpstreamSend 1 (JObj [(''text'', JStr ''hello''),
                                   (''try_trigger_generation'', JBool True)])) example_open"
    by (simp add: client_on_message_def client_on_message_body_def processTextInput_def
        open_link_def json_object_def member_simps example_open_eq)
  note r = stop_flushes_and_keeps_session [OF example_open_session w example_open_upstream
        member_simps(2), of 7 "Parsed hello_frame"]
  show ?thesis
    using example_open_upstream conjunct1 [OF r] conjunct2 [OF r]
    by (simp add: h emit_def)
qed

text \<open>
  Claim C8. For every client frame that does not parse, or that parses to a value whose
  \<open>type\<close> is none of \<open>audio_input\<close>, \<open>text_input\<close> and \<open>stop\<close>, the handler only
  writes one log line (a warning for an unknown type, an error when parsing or reading
  \<open>type\<close> throws): no frame goes to the client or to the provider and the session
  state is unchanged. A \<open>stop\<close> frame that follows is processed as it would have been
  before: it is flushed to the provider when the link is open.
\<close>

theorem unknown_frame_ignored:
  assumes "\<not> known_discriminator data"
    and "member_of stop ''type'' = Inr (JStr ''stop'')"
  shows "(client_on_message c a data s = emit (Console LogWarn ''[Voice] Unknown message type:'') s
          \<or> client_on_message c a data s = emit (Console LogError ''[Voice] Client message error:'') s)
         \<and> client_on_message c a (Parsed stop) (client_on_message c a data s) =
             (case open_link a s of
                None \<Rightarrow> client_on_message c a data s
              | Some w \<Rightarrow> emit (UpstreamSend w (JObj [(''text'', JStr ''''), (''flush'', JBool True)]))
                            (client_on_message c a data s))"
proof -
  have first: "client_on_message c a data s = emit (Console LogWarn ''[Voice] Unknown message type:'') s
          \<or> client_on_message c a data s = emit (Console LogError ''[Voice] Client message error:'') s"
    using assms(1)
    by (auto simp: known_discriminator_def client_on_message_def client_on_message_body_def
        split: parsed.splits sum.splits)
  have stop: "client_on_message c a (Parsed stop) (emit e s) =
            (case open_link a s of
                None \<Rightarrow> emit e s
              | Some w \<Rightarrow> emit (UpstreamSend w (JObj [(''text'', JStr ''''), (''flush'', JBool True)]))
                            (emit e s))" for e
    using assms(2)
    by (simp add: client_on_message_def client_on_message_body_def handleStopSpeaking_def
        open_link_emit json_object_def split: option.splits)
  from first obtain e where e: "client_on_message c a data s = emit e s" by blast
  have "client_on_message c a (Parsed stop) (client_on_message c a data s) =
             (case open_link a s of
                None \<Rightarrow> client_on_message c a data s
              | Some w \<Rightarrow> emit (UpstreamSend w (JObj [(''text'', JStr ''''), (''flush'', JBool True)]))
                            (client_on_message c a data s))"
    unfolding e by (rule stop)
  with first show ?thesis by blast
qed

theorem unknown_frame_ignored_witness:
  "\<not> known_discriminator (Parsed ping)
   \<and> client_on_message 7 0 (Parsed ping) example_open =
       emit (Console LogWarn ''[Voice] Unknown message type:'') example_open
   \<and> client_on_message 7 0 (Parsed stop_frame) (client_on_message 7 0 (Parsed ping) example_open) =
       emit (UpstreamSend 1 (JObj [(''text'', JStr ''''), (''flush'', JBool True)]))
         (client_on_message 7 0 (Parsed ping) example_open)"
proof -
  have k: "\<not> known_discriminator (Parsed ping)"
    by (simp add: known_discriminator_def member_simps)
  have l: "open_link 0 example_open = Some 1"
    by (simp add: open_link_def example_open_eq)
  have p: "client_on_message 7 0 (Parsed ping) example_open =
       emit (Console LogWarn ''[Voice] Unknown message type:'') example_open"
    by (simp add: client_on_message_def client_on_message_body_def member_simps)
  show ?thesis
    using k p conjunct2 [OF unknown_frame_ignored [OF k member_simps(2), of 7 0 example_open]]
    by (simp add: l)
qed

subsection \<open>cleanupSession\<close>

lemma cleanup_absent: "activeSessions s key = None \<Longrightarrow> cleanupSession key s = s"
  by (simp add: cleanupSession_def)

lemma cleanup_removes:
  "activeSessions s key = Some a \<Longrightarrow> sessionObjs s a = Some v \<Longrightarrow>
   activeSessions (cleanupSession key s) key = None"
  by (simp add: cleanupSession_def Let_def emit_def ws_close_def split: option.splits)

text \<open>
  Claim C6. Removing a session is idempotent: a second \<open>cleanupSession\<close> for the same
  key leaves the service exactly as the first one left it, the trace of collaborator
  calls included (one \<open>close\<close> on the link, one deletion, one log line), and on a key
  that is not in the registry \<open>cleanupSession\<close> changes nothing. The function has no
  throwing path.
\<close>

theorem cleanupSession_idempotent:
  "cleanupSession key (cleanupSession key s) = cleanupSession key s
   \<and> (activeSessions s key = None \<longrightarrow> cleanupSession key s = s)"
proof (cases "activeSessions s key")
  case None
  then show ?thesis by (simp add: cleanup_absent)
next
  case (Some a)
  show ?thesis
  proof (cases "sessionObjs s a")
    case None
    with Some have "cleanupSession key s = s" by (simp add: cleanupSession_def)
    with Some show ?thesis by simp
  next
    case (Some v)
    with \<open>activeSessions s key = Some a\<close> show ?thesis
      by (simp add: cleanup_absent cleanup_removes)
  qed
qed

theorem cleanupSession_idempotent_witness:
  "activeSessions (cleanupSession ''s1-1700000000000'' example_open) ''s1-1700000000000'' = None
   \<and> cleanupSession ''s1-1700000000000'' (cleanupSession ''s1-1700000000000'' example_open)
       = cleanupSession ''s1-1700000000000'' example_open
   \<and> effects (cleanupSession ''s1-1700000000000'' (cleanupSession ''s1-1700000000000'' example_open))
       = effects example_ready @ [UpstreamClose 1, Console LogInfo ''[Voice] Session cleaned up: s1-1700000000000'']"
proof -
  have h: "activeSessions (cleanupSession ''s1-1700000000000'' example_open) ''s1-1700000000000'' = None"
    by (simp add: example_open_eq cleanupSession_def ws_close_def emit_def)
  have e: "effects (cleanupSession ''s1-1700000000000'' example_open)
       = effects example_ready @ [UpstreamClose 1, Console LogInfo ''[Voice] Session cleaned up: s1-1700000000000'']"
    by (simp add: example_open_eq cleanupSession_def ws_close_def emit_def)
  show ?thesis
    using h e cleanupSession_idempotent [of "''s1-1700000000000''" "cleanupSession ''s1-1700000000000'' example_open"]
    by simp
qed

subsection \<open>getPersonalitySystemPrompt\<close>

lemma getPersonalitySystemPrompt_default:
  "personality \<notin> set object_prototype_names \<Longrightarrow> personality \<notin> fst ` set prompts \<Longrightarrow>
   getPersonalitySystemPrompt personality = get_property prompts ''AUtistic AI''"
  by (auto simp add: getPersonalitySystemPrompt_def get_property_def prompts_def
      object_prototype_names_def)

text \<open>
  Claim C9. The resolver is to return the prompt of \<open>AUtistic AI\<close> for every name
  outside the three known personalities. For the name \<open>constructor\<close> the lookup
  \<open>prompts[personality]\<close> finds the member the object literal inherits from
  \<open>Object.prototype\<close>, which is truthy, so the \<open>||\<close> fallback is not taken: the
  result is that function, not the default prompt and not a prompt text.
\<close>

theorem getPersonalitySystemPrompt_inherited_member:
  "getPersonalitySystemPrompt ''constructor'' = JNative ''constructor''
   \<and> getPersonalitySystemPrompt ''constructor'' \<noteq> get_property prompts ''AUtistic AI''"
  by (simp add: getPersonalitySystemPrompt_def get_property_def prompts_def
      object_prototype_names_def)

end
